theory Spec2Isabelle
  imports Main "HOL-Library.Word" "HOL-Library.Sublist"
begin

unbundle bit_operations_syntax

section \<open>The HTTP boundary of telescopes: \<^verbatim>\<open>internal/app/telescopes/api/routes.go\<close>\<close>

text \<open>
  The file configures a gin engine: a cross-origin policy, a liveness route, and
  one business route guarded by two validators, whose handler binds the request body
  onto a wrapper value and calls the recommendation engine.

  Three kinds of definitions follow. Functions of \<^verbatim>\<open>routes.go\<close> keep their names
  and are translated statement by statement. The framework operations they call
  (gin's router groups, handler chain, \<^verbatim>\<open>Param\<close>, \<^verbatim>\<open>BindJSON\<close>, \<^verbatim>\<open>JSON\<close>; the decoding
  of \<^verbatim>\<open>encoding/json\<close>) are written out as far as the file depends on them. The
  collaborators that are not part of the file (the engine, the validators, the token
  check, the schema of the embedded request) are parameters, collected in one record.
\<close>

subsection \<open>Constants\<close>

definition providerParam :: string where
  "providerParam = ''provider''"

definition regionParam :: string where
  "regionParam = ''region''"

text \<open>The method names and status codes of \<^verbatim>\<open>net/http\<close> that the file uses.\<close>

definition MethodGet :: string where "MethodGet = ''GET''"
definition MethodPost :: string where "MethodPost = ''POST''"
definition MethodPut :: string where "MethodPut = ''PUT''"
definition MethodDelete :: string where "MethodDelete = ''DELETE''"
definition MethodOptions :: string where "MethodOptions = ''OPTIONS''"

definition StatusOK :: nat where "StatusOK = 200"
definition StatusBadRequest :: nat where "StatusBadRequest = 400"
definition StatusUnauthorized :: nat where "StatusUnauthorized = 401"
definition StatusForbidden :: nat where "StatusForbidden = 403"
definition StatusInternalServerError :: nat where "StatusInternalServerError = 500"

subsection \<open>The cross-origin configuration\<close>

text \<open>
  \<^verbatim>\<open>cors.Config\<close>, with the fields the file touches. \<^verbatim>\<open>MaxAge\<close> is a
  \<^verbatim>\<open>time.Duration\<close>, a 64-bit integer.
\<close>

record Config =
  AllowAllOrigins :: bool
  AllowOrigins :: "string list"
  AllowMethods :: "string list"
  AllowHeaders :: "string list"
  ExposeHeaders :: "string list"
  AllowCredentials :: bool
  MaxAge :: "64 word"

text \<open>
  \<^verbatim>\<open>getCorsConfig\<close> starts from \<^verbatim>\<open>cors.DefaultConfig()\<close>, which belongs to the
  library: it is the argument \<open>dflt\<close>. The assignments follow the source, the dead
  conditional included.
\<close>

definition getCorsConfig :: "Config \<Rightarrow> Config" where
  "getCorsConfig dflt =
     (let config = dflt;
          config = config\<lparr>AllowAllOrigins := True\<rparr>;
          config = (if \<not> AllowAllOrigins config
                    then config\<lparr>AllowOrigins := [''http://'', ''https://'']\<rparr>
                    else config);
          config = config\<lparr>AllowMethods :=
                     [MethodPut, MethodDelete, MethodGet, MethodPost, MethodOptions]\<rparr>;
          config = config\<lparr>AllowHeaders := [''Origin'', ''Authorization'', ''Content-Type'']\<rparr>;
          config = config\<lparr>ExposeHeaders := [''Content-Length'']\<rparr>;
          config = config\<lparr>AllowCredentials := True\<rparr>;
          config = config\<lparr>MaxAge := 12\<rparr>
      in config)"

subsection \<open>JSON documents and the request wrapper\<close>

text \<open>
  A parsed JSON value; a number keeps its literal. A request body either fails to parse
  (with the parser's error text) or is such a value: the parser itself is
  \<^verbatim>\<open>encoding/json\<close>'s and is not modelled.
\<close>

datatype json =
    JNull
  | JBool bool
  | JNumber string
  | JString string
  | JArray "json list"
  | JObject "(string \<times> json) list"

datatype body = Malformed string | Document json

text \<open>
  \<^verbatim>\<open>RequestWrapper\<close>: the embedded \<^verbatim>\<open>recommender.ClusterRecommendationReq\<close> (its
  declaration is outside the file, so its type is the parameter \<open>'w\<close>) and the two
  exported string fields. None of the three carries a JSON tag.
\<close>

record 'w RequestWrapper =
  ClusterRecommendationReq :: 'w
  Provider :: string
  Region :: string

subsection \<open>Collaborators\<close>

text \<open>
  What the file calls and does not define.
  \<^item> \<open>zeroReq\<close>: the zero value of \<^verbatim>\<open>ClusterRecommendationReq\<close>.
  \<^item> \<open>storeField key v w\<close>: how \<^verbatim>\<open>encoding/json\<close> stores the member \<open>key: v\<close> into the
    embedded struct: \<open>None\<close> when \<open>key\<close> selects none of its fields, otherwise the updated
    value or the error text.
  \<^item> \<open>validateStruct\<close>: gin's \<^verbatim>\<open>binding.Validator.ValidateStruct\<close> on the decoded wrapper,
    \<open>None\<close> when it passes, otherwise the error text.
  \<^item> \<open>RecommendCluster\<close>: the engine; a Go pair of a response pointer and an error, the
    error given by its text.
  \<^item> \<open>validVar value tag\<close>: \<^verbatim>\<open>validate.Var(value, tag)\<close> of the validator engine \<open>v\<close>,
    \<open>None\<close> when it passes, otherwise the error text.
  \<^item> \<open>regionCause provider region\<close>: the region lookup, \<open>None\<close> when the region is a
    region of the provider, otherwise the cause (an unknown region, or the error of the
    lookup itself).
  \<^item> \<open>verifyToken role sgnKey token\<close>: the check of a bearer token against the signing key and
    the token store, \<open>None\<close> when it passes, otherwise the reason.
\<close>

record ('w, 'r) collaborators =
  zeroReq :: 'w
  storeField :: "string \<Rightarrow> json \<Rightarrow> 'w \<Rightarrow> (string + 'w) option"
  validateStruct :: "'w RequestWrapper \<Rightarrow> string option"
  RecommendCluster :: "string \<Rightarrow> string \<Rightarrow> 'w \<Rightarrow> 'r option \<times> string option"
  validVar :: "string \<Rightarrow> string \<Rightarrow> string option"
  regionCause :: "string \<Rightarrow> string \<Rightarrow> string option"
  verifyToken :: "string \<Rightarrow> string \<Rightarrow> string \<Rightarrow> string option"

subsection \<open>Decoding a body onto the wrapper\<close>

text \<open>
  \<^verbatim>\<open>encoding/json\<close> matches an object key against the field names of the target struct,
  preferring an exact match and accepting a case-insensitive one. For a name made of
  letters only, as \<^verbatim>\<open>Provider\<close> and \<^verbatim>\<open>Region\<close> are, the case-insensitive comparison
  clears bit \<^verbatim>\<open>0x20\<close> of every byte on both sides.
\<close>

definition caseMask :: "8 word" where
  "caseMask = NOT 0x20"

definition equalFold :: "string \<Rightarrow> string \<Rightarrow> bool" where
  "equalFold name key \<longleftrightarrow>
     list_all2 (\<lambda>a b. (of_char a :: 8 word) AND caseMask = of_char b AND caseMask) name key"

definition jsonKind :: "json \<Rightarrow> string" where
  "jsonKind v = (case v of
       JNull \<Rightarrow> ''null''
     | JBool _ \<Rightarrow> ''bool''
     | JNumber _ \<Rightarrow> ''number''
     | JString _ \<Rightarrow> ''string''
     | JArray _ \<Rightarrow> ''array''
     | JObject _ \<Rightarrow> ''object'')"

definition fieldTypeError :: "json \<Rightarrow> string \<Rightarrow> string" where
  "fieldTypeError v field =
     ''json: cannot unmarshal '' @ jsonKind v @ '' into Go struct field RequestWrapper.''
       @ field @ '' of type string''"

definition valueTypeError :: "json \<Rightarrow> string" where
  "valueTypeError v =
     ''json: cannot unmarshal '' @ jsonKind v @ '' into Go value of type api.RequestWrapper''"

text \<open>
  Storing into a Go \<^verbatim>\<open>string\<close> field: a JSON string is stored, \<^verbatim>\<open>null\<close> leaves the
  field as it is, anything else is a type error.
\<close>

definition storeProvider :: "json \<Rightarrow> 'w RequestWrapper \<Rightarrow> string + 'w RequestWrapper" where
  "storeProvider v req = (case v of
       JString s \<Rightarrow> Inr (req\<lparr>Provider := s\<rparr>)
     | JNull \<Rightarrow> Inr req
     | _ \<Rightarrow> Inl (fieldTypeError v ''Provider''))"

definition storeRegion :: "json \<Rightarrow> 'w RequestWrapper \<Rightarrow> string + 'w RequestWrapper" where
  "storeRegion v req = (case v of
       JString s \<Rightarrow> Inr (req\<lparr>Region := s\<rparr>)
     | JNull \<Rightarrow> Inr req
     | _ \<Rightarrow> Inl (fieldTypeError v ''Region''))"

text \<open>
  One member of the body object. The fields of the wrapper are the promoted fields of the
  embedded struct followed by \<^verbatim>\<open>Provider\<close> and \<^verbatim>\<open>Region\<close>; the two outer fields hide
  embedded fields of the same name. An exact match wins wherever it is; otherwise the
  first case-insensitive match in field order is taken, the embedded fields first. A key
  that matches no field is skipped.
\<close>

definition decodeMember ::
  "('w, 'r) collaborators \<Rightarrow> string \<times> json \<Rightarrow> 'w RequestWrapper \<Rightarrow> string + 'w RequestWrapper"
where
  "decodeMember cb m req =
     (let key = fst m; v = snd m in
      if key = ''Provider'' then storeProvider v req
      else if key = ''Region'' then storeRegion v req
      else (case storeField cb key v (ClusterRecommendationReq req) of
              Some (Inl e) \<Rightarrow> Inl e
            | Some (Inr w) \<Rightarrow> Inr (req\<lparr>ClusterRecommendationReq := w\<rparr>)
            | None \<Rightarrow>
                if equalFold ''Provider'' key then storeProvider v req
                else if equalFold ''Region'' key then storeRegion v req
                else Inr req))"

text \<open>
  The members are stored in document order, a later duplicate over an earlier one. The
  decoder reports the first error it met; the wrapper is dropped by the caller in that
  case, so the model stops there.
\<close>

fun decodeMembers ::
  "('w, 'r) collaborators \<Rightarrow> (string \<times> json) list \<Rightarrow> 'w RequestWrapper
     \<Rightarrow> string + 'w RequestWrapper"
where
  "decodeMembers cb [] req = Inr req"
| "decodeMembers cb (m # ms) req =
     (case decodeMember cb m req of
        Inl e \<Rightarrow> Inl e
      | Inr req' \<Rightarrow> decodeMembers cb ms req')"

definition Decode ::
  "('w, 'r) collaborators \<Rightarrow> body \<Rightarrow> 'w RequestWrapper \<Rightarrow> string + 'w RequestWrapper"
where
  "Decode cb b req = (case b of
       Malformed e \<Rightarrow> Inl e
     | Document JNull \<Rightarrow> Inr req
     | Document (JObject ms) \<Rightarrow> decodeMembers cb ms req
     | Document v \<Rightarrow> Inl (valueTypeError v))"

text \<open>
  gin's JSON binding: decode the body onto the value, then run the struct validator on
  it. The first error is the result.
\<close>

definition Bind ::
  "('w, 'r) collaborators \<Rightarrow> body \<Rightarrow> 'w RequestWrapper \<Rightarrow> string + 'w RequestWrapper"
where
  "Bind cb b req = (case Decode cb b req of
       Inl e \<Rightarrow> Inl e
     | Inr req' \<Rightarrow>
         (case validateStruct cb req' of
            Some e \<Rightarrow> Inl e
          | None \<Rightarrow> Inr req'))"

subsection \<open>Requests and the per-request context\<close>

text \<open>
  What a handler reads of the request. gin has already matched the URL: \<open>reqRoute\<close> is the
  pattern of the matched route and \<open>reqParams\<close> the path parameters it extracted (gin's
  \<^verbatim>\<open>Params\<close>, a list of key and value). \<open>reqOrigin\<close> is the \<^verbatim>\<open>Origin\<close> header, empty when
  absent; \<open>reqToken\<close> the bearer credential, if one was sent.
\<close>

record request =
  reqMethod :: string
  reqRoute :: "string list"
  reqParams :: "(string \<times> string) list"
  reqOrigin :: string
  reqToken :: "string option"
  reqBody :: body

text \<open>\<^verbatim>\<open>c.Param(key)\<close>: the value of the first entry with that key, or the empty string.\<close>

definition Param :: "request \<Rightarrow> string \<Rightarrow> string" where
  "Param req key = (case map_of (reqParams req) key of None \<Rightarrow> [] | Some v \<Rightarrow> v)"

text \<open>
  The values a \<^verbatim>\<open>gin.H\<close> holds in this file, and the bodies a response can carry: a JSON
  string, a \<^verbatim>\<open>gin.H\<close> map, the engine's result serialised as it is, or the reason of a
  refused credential.
\<close>

datatype hvalue = HString string | HInt int

datatype authFailure = NoCredential | Rejected string

datatype 'r payload =
    JsonString string
  | JsonH "string \<rightharpoonup> hvalue"
  | JsonValue 'r
  | Unauthorized authFailure

text \<open>
  The handlers and middleware that can stand in a chain. \<open>CorsMiddleware cfg\<close> is
  \<^verbatim>\<open>cors.New(cfg)\<close>, \<open>JWTAuth role sgnKey\<close> is
  \<^verbatim>\<open>auth.JWTAuth(auth.NewVaultTokenStore(role), sgnKey, nil)\<close>,
  \<open>ValidatePathParam name tag\<close> is \<^verbatim>\<open>ValidatePathParam(name, v, tag)\<close> and
  \<open>ValidateRegionData\<close> is \<^verbatim>\<open>ValidateRegionData(v)\<close>.
\<close>

datatype stage =
    CorsMiddleware Config
  | JWTAuth string string
  | ValidatePathParam string string
  | ValidateRegionData
  | SignalStatus
  | RecommendClusterSetup

text \<open>
  The state of one request: gin's abort flag, the response written so far, the errors
  attached to the context, the cross-origin policy applied to the response, the identity
  attached by the authentication, and, to state what ran and in which order, the stages
  entered and the calls made to the engine, both in order. \<open>panicked\<close> records a Go panic.
\<close>

record ('w, 'r) Context =
  aborted :: bool
  status :: "nat option"
  payload :: "'r payload option"
  errors :: "string list"
  policy :: "Config option"
  identity :: "string option"
  trace :: "stage list"
  engineCalls :: "(string \<times> string \<times> 'w) list"
  panicked :: bool

definition newContext :: "('w, 'r) Context" where
  "newContext = \<lparr>aborted = False, status = None, payload = None, errors = [],
     policy = None, identity = None, trace = [], engineCalls = [], panicked = False\<rparr>"

text \<open>The context operations of gin that the file and its middleware use.\<close>

definition JSON :: "nat \<Rightarrow> 'r payload \<Rightarrow> ('w, 'r) Context \<Rightarrow> ('w, 'r) Context" where
  "JSON code obj c = c\<lparr>status := Some code, payload := Some obj\<rparr>"

definition Abort :: "('w, 'r) Context \<Rightarrow> ('w, 'r) Context" where
  "Abort c = c\<lparr>aborted := True\<rparr>"

definition AbortWithStatus :: "nat \<Rightarrow> ('w, 'r) Context \<Rightarrow> ('w, 'r) Context" where
  "AbortWithStatus code c = Abort (c\<lparr>status := Some code\<rparr>)"

definition AbortWithError :: "nat \<Rightarrow> string \<Rightarrow> ('w, 'r) Context \<Rightarrow> ('w, 'r) Context" where
  "AbortWithError code err c = (AbortWithStatus code c)\<lparr>errors := errors c @ [err]\<rparr>"

definition AbortWithStatusJSON ::
  "nat \<Rightarrow> 'r payload \<Rightarrow> ('w, 'r) Context \<Rightarrow> ('w, 'r) Context"
where
  "AbortWithStatusJSON code obj c = JSON code obj (Abort c)"

text \<open>
  \<^verbatim>\<open>c.BindJSON(obj)\<close>: bind the body; on an error abort the context with status 400 and
  the error attached, and return the error.
\<close>

definition BindJSON ::
  "('w, 'r) collaborators \<Rightarrow> request \<Rightarrow> 'w RequestWrapper \<Rightarrow> ('w, 'r) Context
     \<Rightarrow> (string + 'w RequestWrapper) \<times> ('w, 'r) Context"
where
  "BindJSON cb req obj c = (case Bind cb (reqBody req) obj of
       Inl err \<Rightarrow> (Inl err, AbortWithError StatusBadRequest err c)
     | Inr obj' \<Rightarrow> (Inr obj', c))"

subsection \<open>The two handlers of the file\<close>

definition signalStatus :: "request \<Rightarrow> ('w, 'r) Context \<Rightarrow> ('w, 'r) Context" where
  "signalStatus req c = JSON StatusOK (JsonString ''ok'') c"

text \<open>
  \<^verbatim>\<open>recommendClusterSetup\<close>. The wrapper is built from the two path parameters, the body
  is bound onto it, and the engine is called with the path parameters and the embedded
  request of the bound wrapper. \<^verbatim>\<open>fmt.Sprintf("%s", err)\<close> is the text of the error.
  The source dereferences the response pointer when the error is nil: a nil pointer
  there is a panic.
\<close>

definition recommendClusterSetup ::
  "('w, 'r) collaborators \<Rightarrow> request \<Rightarrow> ('w, 'r) Context \<Rightarrow> ('w, 'r) Context"
where
  "recommendClusterSetup cb req c =
     (let provider = Param req providerParam;
          region = Param req regionParam;
          wrapper = \<lparr>ClusterRecommendationReq = zeroReq cb, Provider = provider, Region = region\<rparr>
      in case BindJSON cb req wrapper c of
           (Inl err, c) \<Rightarrow>
             JSON StatusBadRequest
               (JsonH [''code'' \<mapsto> HString ''bad_params'',
                       ''message'' \<mapsto> HString ''validation failed'',
                       ''cause'' \<mapsto> HString err]) c
         | (Inr bound, c) \<Rightarrow>
             (let c = c\<lparr>engineCalls := engineCalls c
                          @ [(provider, region, ClusterRecommendationReq bound)]\<rparr>
              in case RecommendCluster cb provider region (ClusterRecommendationReq bound) of
                   (_, Some err) \<Rightarrow>
                     JSON StatusInternalServerError
                       (JsonH [''status'' \<mapsto> HInt (int StatusInternalServerError),
                               ''message'' \<mapsto> HString err]) c
                 | (Some response, None) \<Rightarrow> JSON StatusOK (JsonValue response) c
                 | (None, None) \<Rightarrow> c\<lparr>panicked := True\<rparr>))"

subsection \<open>The middleware\<close>

text \<open>
  The cross-origin middleware of gin-contrib, for a request that is not a preflight (the
  two routes of the file answer GET and POST only): a request without an \<^verbatim>\<open>Origin\<close>
  header passes untouched, a request from an origin the configuration does not allow is
  aborted with 403, any other passes with the policy applied to the response.
\<close>

definition applyCors :: "Config \<Rightarrow> request \<Rightarrow> ('w, 'r) Context \<Rightarrow> ('w, 'r) Context" where
  "applyCors config req c =
     (if reqOrigin req = [] then c
      else if AllowAllOrigins config \<or> reqOrigin req \<in> set (AllowOrigins config)
      then c\<lparr>policy := Some config\<rparr>
      else AbortWithStatus StatusForbidden c)"

text \<open>
  Modelled from the spec: \<^verbatim>\<open>auth.JWTAuth\<close> comes from a library outside the file. The
  spec's contract: the credential is verified against the signing key and the token
  store; on failure the response is 401 and the chain is cut short; on success an
  identity is attached and the request continues. A request without a credential fails.
\<close>

definition jwtAuth ::
  "('w, 'r) collaborators \<Rightarrow> string \<Rightarrow> string \<Rightarrow> request \<Rightarrow> ('w, 'r) Context
     \<Rightarrow> ('w, 'r) Context"
where
  "jwtAuth cb role sgnKey req c = (case reqToken req of
       None \<Rightarrow> AbortWithStatusJSON StatusUnauthorized (Unauthorized NoCredential) c
     | Some token \<Rightarrow>
         (case verifyToken cb role sgnKey token of
            Some reason \<Rightarrow>
              AbortWithStatusJSON StatusUnauthorized (Unauthorized (Rejected reason)) c
          | None \<Rightarrow> c\<lparr>identity := Some token\<rparr>))"

text \<open>
  Modelled from the spec: \<^verbatim>\<open>ValidatePathParam\<close> is defined in another file of the
  package. The spec's contract: the raw value of the named parameter is run through the
  rule engine under the given tag; the request passes unmodified, or the chain is cut
  short with a 400 response of code \<^verbatim>\<open>bad_params\<close>, the fixed message and the cause.
\<close>

definition validatePathParam ::
  "('w, 'r) collaborators \<Rightarrow> string \<Rightarrow> string \<Rightarrow> request \<Rightarrow> ('w, 'r) Context
     \<Rightarrow> ('w, 'r) Context"
where
  "validatePathParam cb name tag req c = (case validVar cb (Param req name) tag of
       Some cause \<Rightarrow>
         AbortWithStatusJSON StatusBadRequest
           (JsonH [''code'' \<mapsto> HString ''bad_params'',
                   ''message'' \<mapsto> HString ''validation failed'',
                   ''cause'' \<mapsto> HString cause]) c
     | None \<Rightarrow> c)"

text \<open>
  Modelled from the spec: \<^verbatim>\<open>ValidateRegionData\<close> is defined in another file of the
  package. The spec's contract: the region parameter is looked up for the provider
  parameter; the middleware fails closed, so an unknown region or a failed lookup cuts
  the chain short with a 400 response carrying the cause.
\<close>

definition validateRegionData ::
  "('w, 'r) collaborators \<Rightarrow> request \<Rightarrow> ('w, 'r) Context \<Rightarrow> ('w, 'r) Context"
where
  "validateRegionData cb req c =
     (case regionCause cb (Param req providerParam) (Param req regionParam) of
        Some cause \<Rightarrow>
          AbortWithStatusJSON StatusBadRequest
            (JsonH [''code'' \<mapsto> HString ''bad_params'',
                    ''message'' \<mapsto> HString ''validation failed'',
                    ''cause'' \<mapsto> HString cause]) c
      | None \<Rightarrow> c)"

subsection \<open>Running a chain\<close>

definition runStage ::
  "('w, 'r) collaborators \<Rightarrow> stage \<Rightarrow> request \<Rightarrow> ('w, 'r) Context \<Rightarrow> ('w, 'r) Context"
where
  "runStage cb s req c = (case s of
       CorsMiddleware config \<Rightarrow> applyCors config req c
     | JWTAuth role sgnKey \<Rightarrow> jwtAuth cb role sgnKey req c
     | ValidatePathParam name tag \<Rightarrow> validatePathParam cb name tag req c
     | ValidateRegionData \<Rightarrow> validateRegionData cb req c
     | SignalStatus \<Rightarrow> signalStatus req c
     | RecommendClusterSetup \<Rightarrow> recommendClusterSetup cb req c)"

text \<open>
  gin's \<^verbatim>\<open>Next\<close>: the handlers of the chain run in order until one aborts the context
  (or panics). Every handler entered is appended to the trace.
\<close>

fun Next ::
  "('w, 'r) collaborators \<Rightarrow> stage list \<Rightarrow> request \<Rightarrow> ('w, 'r) Context \<Rightarrow> ('w, 'r) Context"
where
  "Next cb [] req c = c"
| "Next cb (h # hs) req c =
     (if aborted c \<or> panicked c then c
      else Next cb hs req (runStage cb h req (c\<lparr>trace := trace c @ [h]\<rparr>)))"

subsection \<open>Router groups\<close>

text \<open>
  gin's \<^verbatim>\<open>RouterGroup\<close>: the middleware collected so far and the base path. gin joins
  relative paths with \<^verbatim>\<open>path.Join\<close>; the model keeps the sequence of relative paths
  instead of the joined string. The engine is a router group with the table of
  registered routes: method, path and the chain fixed at registration.
\<close>

record RouterGroup =
  Handlers :: "stage list"
  groupPath :: "string list"

record Engine = RouterGroup +
  trees :: "(string \<times> string list \<times> stage list) list"

definition New :: Engine where
  "New = \<lparr>Handlers = [], groupPath = [''/''], trees = []\<rparr>"

definition Use :: "'a RouterGroup_scheme \<Rightarrow> stage list \<Rightarrow> 'a RouterGroup_scheme" where
  "Use grp middleware = grp\<lparr>Handlers := Handlers grp @ middleware\<rparr>"

definition Group :: "'a RouterGroup_scheme \<Rightarrow> string \<Rightarrow> RouterGroup" where
  "Group grp relativePath =
     \<lparr>Handlers = Handlers grp, groupPath = groupPath grp @ [relativePath]\<rparr>"

definition handle :: "RouterGroup \<Rightarrow> string \<Rightarrow> string \<Rightarrow> stage \<Rightarrow> Engine \<Rightarrow> Engine" where
  "handle grp httpMethod relativePath handler engine =
     engine\<lparr>trees := trees engine
       @ [(httpMethod, groupPath grp @ [relativePath], Handlers grp @ [handler])]\<rparr>"

definition GET :: "RouterGroup \<Rightarrow> string \<Rightarrow> stage \<Rightarrow> Engine \<Rightarrow> Engine" where
  "GET grp relativePath handler engine = handle grp MethodGet relativePath handler engine"

definition POST :: "RouterGroup \<Rightarrow> string \<Rightarrow> stage \<Rightarrow> Engine \<Rightarrow> Engine" where
  "POST grp relativePath handler engine = handle grp MethodPost relativePath handler engine"

subsection \<open>Configuring the routes\<close>

text \<open>\<^verbatim>\<open>os.Getenv\<close>: the value of the variable, empty when it is not set.\<close>

definition Getenv :: "(string \<rightharpoonup> string) \<Rightarrow> string \<Rightarrow> string" where
  "Getenv env key = (case env key of None \<Rightarrow> [] | Some v \<Rightarrow> v)"

text \<open>The local \<^verbatim>\<open>basePath\<close> of \<^verbatim>\<open>ConfigureRoutes\<close>.\<close>

definition basePath :: "(string \<rightharpoonup> string) \<Rightarrow> string" where
  "basePath env =
     (let basePathFromEnv = Getenv env ''TELESCOPES_BASEPATH''
      in if basePathFromEnv \<noteq> [] then basePathFromEnv else ''/'')"

text \<open>
  \<^verbatim>\<open>ConfigureRoutes\<close>, call by call. The environment and the library's default
  cross-origin configuration are arguments.
\<close>

definition ConfigureRoutes :: "Config \<Rightarrow> (string \<rightharpoonup> string) \<Rightarrow> Engine \<Rightarrow> Engine" where
  "ConfigureRoutes dflt env router =
     (let router = Use router [CorsMiddleware (getCorsConfig dflt)];
          base = Group router (basePath env);
          router = GET base ''/status'' SignalStatus router;
          v1 = Group base ''/api/v1'';
          v1 = Use v1 [ValidatePathParam providerParam ''provider''];
          v1 = Use v1 [ValidateRegionData];
          recGroup = Group v1 ''/recommender'';
          router = POST recGroup ''/:provider/:region/cluster/'' RecommendClusterSetup router
      in router)"

definition EnableAuth :: "Engine \<Rightarrow> string \<Rightarrow> string \<Rightarrow> Engine" where
  "EnableAuth router role sgnKey = Use router [JWTAuth role sgnKey]"

text \<open>The paths of the two routes, as \<^verbatim>\<open>ConfigureRoutes\<close> composes them on a new engine.\<close>

definition statusRoute :: "(string \<rightharpoonup> string) \<Rightarrow> string list" where
  "statusRoute env = [''/'', basePath env, ''/status'']"

definition recommendRoute :: "(string \<rightharpoonup> string) \<Rightarrow> string list" where
  "recommendRoute env =
     [''/'', basePath env, ''/api/v1'', ''/recommender'', ''/:provider/:region/cluster/'']"

text \<open>
  Modelled from the spec: the embedding process is not in the file. It supplies an
  authentication-enable flag with a role and a signing key; when the flag is set the
  authentication intercepts every request before routing, so \<^verbatim>\<open>EnableAuth\<close> is applied
  to the new engine before \<^verbatim>\<open>ConfigureRoutes\<close> registers the routes.
\<close>

definition startup ::
  "Config \<Rightarrow> (string \<rightharpoonup> string) \<Rightarrow> (string \<times> string) option \<Rightarrow> Engine"
where
  "startup dflt env auth = (case auth of
       None \<Rightarrow> ConfigureRoutes dflt env New
     | Some (role, sgnKey) \<Rightarrow> ConfigureRoutes dflt env (EnableAuth New role sgnKey))"

subsection \<open>Serving a request\<close>

text \<open>
  The chain registered for a method and a path, and the run of a request through it.
  A request that matches no registered route is outside the model.
\<close>

definition handlersFor :: "Engine \<Rightarrow> string \<Rightarrow> string list \<Rightarrow> stage list option" where
  "handlersFor engine httpMethod path =
     map_option (\<lambda>t. snd (snd t))
       (find (\<lambda>t. fst t = httpMethod \<and> fst (snd t) = path) (trees engine))"

definition ServeHTTP ::
  "('w, 'r) collaborators \<Rightarrow> Engine \<Rightarrow> request \<Rightarrow> ('w, 'r) Context option"
where
  "ServeHTTP cb engine req = (case handlersFor engine (reqMethod req) (reqRoute req) of
       None \<Rightarrow> None
     | Some handlers \<Rightarrow> Some (Next cb handlers req newContext))"

subsection \<open>A concrete setting\<close>

text \<open>
  The wrapper that \<^verbatim>\<open>recommendClusterSetup\<close> builds before binding, and whether a
  request passes the authentication that was enabled at startup.
\<close>

abbreviation pathWrapper :: "('w, 'r) collaborators \<Rightarrow> request \<Rightarrow> 'w RequestWrapper" where
  "pathWrapper cb req \<equiv>
     \<lparr>ClusterRecommendationReq = zeroReq cb,
      Provider = Param req providerParam, Region = Param req regionParam\<rparr>"

definition authorized ::
  "('w, 'r) collaborators \<Rightarrow> (string \<times> string) option \<Rightarrow> request \<Rightarrow> bool"
where
  "authorized cb auth req = (case auth of
       None \<Rightarrow> True
     | Some (role, sgnKey) \<Rightarrow>
         (case reqToken req of
            None \<Rightarrow> False
          | Some token \<Rightarrow> verifyToken cb role sgnKey token = None))"

text \<open>
  The stages that \<^verbatim>\<open>EnableAuth\<close> puts in front of every chain, and the requests that
  pass the three guards of the business route: the authentication if enabled, the
  provider rule, the region lookup.
\<close>

definition authStages :: "(string \<times> string) option \<Rightarrow> stage list" where
  "authStages auth = (case auth of None \<Rightarrow> [] | Some (role, sgnKey) \<Rightarrow> [JWTAuth role sgnKey])"

definition passesGuards ::
  "('w, 'r) collaborators \<Rightarrow> (string \<times> string) option \<Rightarrow> request \<Rightarrow> bool"
where
  "passesGuards cb auth req \<longleftrightarrow>
     authorized cb auth req
     \<and> validVar cb (Param req providerParam) ''provider'' = None
     \<and> regionCause cb (Param req providerParam) (Param req regionParam) = None"

text \<open>
  A small instance of the collaborators, to evaluate the model on concrete requests:
  the library's default cross-origin configuration, an embedded request with two
  numeric fields kept as their literals, a validator that requires \<^verbatim>\<open>sumCpu\<close>, an
  engine that answers with a text or fails for the region \<^verbatim>\<open>nowhere\<close>, a provider rule
  that knows two providers, a region catalogue of three entries, and a token store
  that accepts one token.
\<close>

definition DefaultConfig :: Config where
  "DefaultConfig = \<lparr>AllowAllOrigins = False, AllowOrigins = [],
     AllowMethods = [''GET'', ''POST'', ''PUT'', ''HEAD''],
     AllowHeaders = [''Origin'', ''Content-Length'', ''Content-Type''],
     ExposeHeaders = [], AllowCredentials = False, MaxAge = 43200000000000\<rparr>"

definition sampleStore ::
  "string \<Rightarrow> json \<Rightarrow> (string \<times> string) list \<Rightarrow> (string + (string \<times> string) list) option"
where
  "sampleStore key v w =
     (if key = ''sumCpu'' \<or> key = ''sumMem'' then
        (case v of
           JNumber n \<Rightarrow> Some (Inr (w @ [(key, n)]))
         | JNull \<Rightarrow> Some (Inr w)
         | _ \<Rightarrow> Some (Inl (''json: cannot unmarshal '' @ jsonKind v @ '' into '' @ key)))
      else None)"

definition sampleCollaborators :: "((string \<times> string) list, string) collaborators" where
  "sampleCollaborators = \<lparr>
     zeroReq = [],
     storeField = sampleStore,
     validateStruct = (\<lambda>w. case map_of (ClusterRecommendationReq w) ''sumCpu'' of
         None \<Rightarrow> Some ''sumCpu is required'' | Some _ \<Rightarrow> None),
     RecommendCluster = (\<lambda>provider region w.
         if region = ''nowhere'' then (None, Some ''no feasible layout'')
         else (Some (''layout for '' @ provider @ '' in '' @ region), None)),
     validVar = (\<lambda>v tag.
         if v = ''amazon'' \<or> v = ''google'' then None else Some ''unknown provider''),
     regionCause = (\<lambda>provider region.
         if (provider, region) \<in> {(''amazon'', ''eu-west-1''), (''amazon'', ''nowhere''),
                                   (''google'', ''europe-west1'')}
         then None else Some ''unknown region''),
     verifyToken = (\<lambda>role sgnKey token.
         if token = ''good'' then None else Some ''token rejected'')\<rparr>"

definition sampleRequest :: "body \<Rightarrow> request" where
  "sampleRequest b = \<lparr>reqMethod = ''POST'', reqRoute = recommendRoute Map.empty,
     reqParams = [(''provider'', ''amazon''), (''region'', ''eu-west-1'')],
     reqOrigin = ''http://example.org'', reqToken = None, reqBody = b\<rparr>"

definition sampleStatusRequest :: request where
  "sampleStatusRequest = \<lparr>reqMethod = ''GET'', reqRoute = statusRoute Map.empty,
     reqParams = [], reqOrigin = [], reqToken = None, reqBody = Malformed ''EOF''\<rparr>"

definition conflictingBody :: body where
  "conflictingBody = Document (JObject [(''sumCpu'', JNumber ''4''),
     (''Provider'', JString ''google''), (''Region'', JString ''europe-west1'')])"

section \<open>Properties\<close>

subsection \<open>The registered routes and the run of a chain\<close>

lemmas context_ops = JSON_def Abort_def AbortWithStatus_def AbortWithError_def
  AbortWithStatusJSON_def

lemmas stage_defs = runStage_def applyCors_def jwtAuth_def validatePathParam_def
  validateRegionData_def signalStatus_def

lemma trees_ConfigureRoutes:
  "trees (ConfigureRoutes dflt env router) = trees router @
     [(MethodGet, groupPath router @ [basePath env, ''/status''],
       Handlers router @ [CorsMiddleware (getCorsConfig dflt), SignalStatus]),
      (MethodPost,
       groupPath router @ [basePath env, ''/api/v1'', ''/recommender'', ''/:provider/:region/cluster/''],
       Handlers router @ [CorsMiddleware (getCorsConfig dflt),
         ValidatePathParam providerParam ''provider'', ValidateRegionData, RecommendClusterSetup])]"
  by (simp add: ConfigureRoutes_def Use_def Group_def GET_def POST_def handle_def Let_def)

lemma trees_startup:
  "trees (startup dflt env auth) =
     [(MethodGet, statusRoute env,
       authStages auth @ [CorsMiddleware (getCorsConfig dflt), SignalStatus]),
      (MethodPost, recommendRoute env,
       authStages auth @ [CorsMiddleware (getCorsConfig dflt),
         ValidatePathParam providerParam ''provider'', ValidateRegionData, RecommendClusterSetup])]"
  by (cases auth)
     (auto simp add: startup_def trees_ConfigureRoutes New_def EnableAuth_def Use_def
        statusRoute_def recommendRoute_def authStages_def)

lemma handlersFor_status:
  "handlersFor (startup dflt env auth) MethodGet (statusRoute env) =
     Some (authStages auth @ [CorsMiddleware (getCorsConfig dflt), SignalStatus])"
  by (simp add: handlersFor_def trees_startup)

lemma handlersFor_recommend:
  "handlersFor (startup dflt env auth) MethodPost (recommendRoute env) =
     Some (authStages auth @ [CorsMiddleware (getCorsConfig dflt),
         ValidatePathParam providerParam ''provider'', ValidateRegionData, RecommendClusterSetup])"
  by (simp add: handlersFor_def trees_startup MethodGet_def MethodPost_def)

lemma AllowAllOrigins_getCorsConfig [simp]: "AllowAllOrigins (getCorsConfig dflt)"
  by (simp add: getCorsConfig_def Let_def)

lemma Next_stopped: "aborted c \<or> panicked c \<Longrightarrow> Next cb hs req c = c"
  by (cases hs) auto

lemma Next_append: "Next cb (xs @ ys) req c = Next cb ys req (Next cb xs req c)"
proof (induction xs arbitrary: c)
  case Nil
  show ?case by simp
next
  case (Cons x xs)
  show ?case
  proof (cases "aborted c \<or> panicked c")
    case True
    then show ?thesis by (simp add: Next_stopped)
  next
    case False
    then show ?thesis using Cons.IH by simp
  qed
qed

lemma handler_bind_failure:
  assumes "Bind cb (reqBody req) (pathWrapper cb req) = Inl err"
  shows "recommendClusterSetup cb req c =
     c\<lparr>aborted := True, status := Some StatusBadRequest,
       payload := Some (JsonH [''code'' \<mapsto> HString ''bad_params'',
                               ''message'' \<mapsto> HString ''validation failed'',
                               ''cause'' \<mapsto> HString err]),
       errors := errors c @ [err]\<rparr>"
  using assms by (simp add: recommendClusterSetup_def BindJSON_def context_ops Let_def)

lemma handler_engine_error:
  assumes "Bind cb (reqBody req) (pathWrapper cb req) = Inr bound"
    and "RecommendCluster cb (Param req providerParam) (Param req regionParam)
           (ClusterRecommendationReq bound) = (response, Some err)"
  shows "recommendClusterSetup cb req c =
     c\<lparr>engineCalls := engineCalls c
          @ [(Param req providerParam, Param req regionParam, ClusterRecommendationReq bound)],
       status := Some StatusInternalServerError,
       payload := Some (JsonH [''status'' \<mapsto> HInt 500, ''message'' \<mapsto> HString err])\<rparr>"
  using assms
  by (simp add: recommendClusterSetup_def BindJSON_def context_ops Let_def
      StatusInternalServerError_def split: option.splits)

lemma handler_engine_result:
  assumes "Bind cb (reqBody req) (pathWrapper cb req) = Inr bound"
    and "RecommendCluster cb (Param req providerParam) (Param req regionParam)
           (ClusterRecommendationReq bound) = (Some response, None)"
  shows "recommendClusterSetup cb req c =
     c\<lparr>engineCalls := engineCalls c
          @ [(Param req providerParam, Param req regionParam, ClusterRecommendationReq bound)],
       status := Some StatusOK, payload := Some (JsonValue response)\<rparr>"
  using assms by (simp add: recommendClusterSetup_def BindJSON_def context_ops Let_def)

lemma handler_engine_called:
  assumes "Bind cb (reqBody req) (pathWrapper cb req) = Inr bound"
  shows "engineCalls (recommendClusterSetup cb req c) = engineCalls c
          @ [(Param req providerParam, Param req regionParam, ClusterRecommendationReq bound)]"
  using assms
  by (simp add: recommendClusterSetup_def BindJSON_def context_ops Let_def
      split: prod.splits option.splits)

lemma trace_recommendClusterSetup: "trace (recommendClusterSetup cb req c) = trace c"
  by (simp add: recommendClusterSetup_def BindJSON_def context_ops Let_def
      split: prod.splits option.splits sum.splits)

lemma trace_runStage: "trace (runStage cb s req c) = trace c"
  by (cases s)
     (simp_all add: stage_defs context_ops trace_recommendClusterSetup
        split: option.splits)

lemma trace_Next: "prefix (trace (Next cb hs req c)) (trace c @ hs)"
proof (induction hs arbitrary: c)
  case Nil
  show ?case by simp
next
  case (Cons h hs)
  show ?case
  proof (cases "aborted c \<or> panicked c")
    case True
    then show ?thesis by simp
  next
    case False
    have "prefix (trace (Next cb hs req (runStage cb h req (c\<lparr>trace := trace c @ [h]\<rparr>))))
            (trace (runStage cb h req (c\<lparr>trace := trace c @ [h]\<rparr>)) @ hs)"
      by (rule Cons.IH)
    then show ?thesis using False by (simp add: trace_runStage)
  qed
qed

lemma guards_pass:
  assumes "passesGuards cb auth req"
  shows "Next cb (authStages auth @ [CorsMiddleware (getCorsConfig dflt),
            ValidatePathParam providerParam ''provider'', ValidateRegionData]) req newContext =
     newContext\<lparr>
       policy := (if reqOrigin req = [] then None else Some (getCorsConfig dflt)),
       identity := (case auth of None \<Rightarrow> None | Some _ \<Rightarrow> reqToken req),
       trace := authStages auth @ [CorsMiddleware (getCorsConfig dflt),
            ValidatePathParam providerParam ''provider'', ValidateRegionData]\<rparr>"
  using assms
  by (cases auth)
     (auto simp add: passesGuards_def authorized_def authStages_def newContext_def
        stage_defs context_ops split: option.splits)

lemma guards_quiet:
  "engineCalls (Next cb (authStages auth @ [CorsMiddleware (getCorsConfig dflt),
            ValidatePathParam providerParam ''provider'', ValidateRegionData]) req newContext) = []
   \<and> \<not> panicked (Next cb (authStages auth @ [CorsMiddleware (getCorsConfig dflt),
            ValidatePathParam providerParam ''provider'', ValidateRegionData]) req newContext)"
  by (cases auth)
     (auto simp add: authStages_def newContext_def
        stage_defs context_ops split: option.splits if_splits)

lemmas sample_defs = sampleCollaborators_def sampleRequest_def sampleStatusRequest_def
  sampleStore_def conflictingBody_def Param_def providerParam_def regionParam_def
  passesGuards_def authorized_def Bind_def Decode_def decodeMember_def storeProvider_def
  storeRegion_def MethodPost_def MethodGet_def

lemma guards_stop:
  assumes "\<not> passesGuards cb auth req"
  shows "aborted (Next cb (authStages auth @ [CorsMiddleware (getCorsConfig dflt),
            ValidatePathParam providerParam ''provider'', ValidateRegionData]) req newContext)"
  using assms
  apply (cases auth; cases "reqToken req";
      cases "validVar cb (Param req providerParam) ''provider''";
      cases "regionCause cb (Param req providerParam) (Param req regionParam)")
  apply (simp_all add: passesGuards_def authorized_def authStages_def newContext_def
        stage_defs context_ops split: option.splits prod.splits)
  apply force
  done

lemma guards_provider_refused:
  assumes "validVar cb (Param req providerParam) ''provider'' = Some cause"
  shows "trace (Next cb (authStages auth @ [CorsMiddleware (getCorsConfig dflt),
            ValidatePathParam providerParam ''provider'', ValidateRegionData]) req newContext)
       = (if authorized cb auth req
          then authStages auth @ [CorsMiddleware (getCorsConfig dflt),
                 ValidatePathParam providerParam ''provider'']
          else authStages auth)"
  using assms
  by (cases auth; cases "reqToken req")
     (simp_all add: authorized_def authStages_def newContext_def
        stage_defs context_ops split: option.splits prod.splits)

lemma trace_Next_subset: "set (trace (Next cb hs req c)) \<subseteq> set (trace c) \<union> set hs"
proof -
  have "set (trace (Next cb hs req c)) \<subseteq> set (trace c @ hs)"
    by (rule set_mono_prefix) (rule trace_Next)
  then show ?thesis by simp
qed

lemma trace_newContext [simp]: "trace newContext = []"
  by (simp add: newContext_def)

lemma RecommendClusterSetup_notin_authStages [simp]:
  "RecommendClusterSetup \<notin> set (authStages auth)"
  by (simp add: authStages_def split: option.splits)

lemma guards_trace:
  "RecommendClusterSetup \<notin> set (trace (Next cb (authStages auth @
      [CorsMiddleware (getCorsConfig dflt),
       ValidatePathParam providerParam ''provider'', ValidateRegionData]) req newContext))"
proof
  assume "RecommendClusterSetup \<in> set (trace (Next cb (authStages auth @
      [CorsMiddleware (getCorsConfig dflt),
       ValidatePathParam providerParam ''provider'', ValidateRegionData]) req newContext))"
  then have "RecommendClusterSetup \<in> set (trace (newContext :: ('a, 'b) Context))
      \<union> set (authStages auth @ [CorsMiddleware (getCorsConfig dflt),
       ValidatePathParam providerParam ''provider'', ValidateRegionData])"
    by (rule subsetD [OF trace_Next_subset])
  then show False by simp
qed

lemma serve_recommend:
  assumes "reqMethod req = MethodPost" and "reqRoute req = recommendRoute env"
  shows "ServeHTTP cb (startup dflt env auth) req =
     Some (Next cb [RecommendClusterSetup] req
       (Next cb (authStages auth @ [CorsMiddleware (getCorsConfig dflt),
            ValidatePathParam providerParam ''provider'', ValidateRegionData]) req newContext))"
proof -
  have "authStages auth @ [CorsMiddleware (getCorsConfig dflt),
          ValidatePathParam providerParam ''provider'', ValidateRegionData, RecommendClusterSetup]
        = (authStages auth @ [CorsMiddleware (getCorsConfig dflt),
          ValidatePathParam providerParam ''provider'', ValidateRegionData])
          @ [RecommendClusterSetup]"
    by simp
  then show ?thesis
    using assms by (simp only: ServeHTTP_def handlersFor_recommend Next_append option.case)
qed

lemma serve_recommend_passed:
  assumes "reqMethod req = MethodPost" and "reqRoute req = recommendRoute env"
    and "passesGuards cb auth req"
  shows "ServeHTTP cb (startup dflt env auth) req =
     Some (recommendClusterSetup cb req
       (newContext\<lparr>
          policy := (if reqOrigin req = [] then None else Some (getCorsConfig dflt)),
          identity := (case auth of None \<Rightarrow> None | Some _ \<Rightarrow> reqToken req),
          trace := authStages auth @ [CorsMiddleware (getCorsConfig dflt),
            ValidatePathParam providerParam ''provider'', ValidateRegionData,
            RecommendClusterSetup]\<rparr>))"
proof -
  have "ServeHTTP cb (startup dflt env auth) req =
     Some (Next cb [RecommendClusterSetup] req
       (newContext\<lparr>
          policy := (if reqOrigin req = [] then None else Some (getCorsConfig dflt)),
          identity := (case auth of None \<Rightarrow> None | Some _ \<Rightarrow> reqToken req),
          trace := authStages auth @ [CorsMiddleware (getCorsConfig dflt),
            ValidatePathParam providerParam ''provider'', ValidateRegionData]\<rparr>))"
    using assms by (simp only: serve_recommend guards_pass)
  then show ?thesis
    by (simp add: runStage_def newContext_def)
qed

lemma serve_recommend_stopped:
  assumes "reqMethod req = MethodPost" and "reqRoute req = recommendRoute env"
    and "\<not> passesGuards cb auth req"
  shows "\<exists>c. ServeHTTP cb (startup dflt env auth) req = Some c
     \<and> aborted c \<and> RecommendClusterSetup \<notin> set (trace c) \<and> engineCalls c = []"
proof -
  define g :: "('a, 'b) Context" where
    "g = Next cb (authStages auth @ [CorsMiddleware (getCorsConfig dflt),
            ValidatePathParam providerParam ''provider'', ValidateRegionData]) req newContext"
  have a: "aborted g"
    unfolding g_def using assms(3) by (rule guards_stop)
  have t: "RecommendClusterSetup \<notin> set (trace g)"
    unfolding g_def by (rule guards_trace)
  have e: "engineCalls g = []"
    unfolding g_def using guards_quiet by blast
  have "ServeHTTP cb (startup dflt env auth) req = Some (Next cb [RecommendClusterSetup] req g)"
    unfolding g_def using assms(1,2) by (rule serve_recommend)
  then have "ServeHTTP cb (startup dflt env auth) req = Some g"
    using a by (simp add: Next_stopped)
  then show ?thesis
    using a t e by blast
qed

subsection \<open>The terminal handler\<close>

text \<open>
  C3. A request whose body fails to bind (the decoder or the struct validator reports
  an error). In whatever context the handler of the recommend route is entered, it
  answers 400 with code \<^verbatim>\<open>bad_params\<close>, message \<^verbatim>\<open>validation failed\<close> and the text of the
  error as cause, aborts the request, and does not call the engine: the list of engine
  calls is as it was.
\<close>

theorem bind_failure_is_bad_request:
  assumes "Bind cb (reqBody req) (pathWrapper cb req) = Inl err"
  shows "status (recommendClusterSetup cb req c) = Some StatusBadRequest
     \<and> StatusBadRequest = 400
     \<and> payload (recommendClusterSetup cb req c) =
         Some (JsonH [''code'' \<mapsto> HString ''bad_params'',
                      ''message'' \<mapsto> HString ''validation failed'',
                      ''cause'' \<mapsto> HString err])
     \<and> aborted (recommendClusterSetup cb req c)
     \<and> engineCalls (recommendClusterSetup cb req c) = engineCalls c"
proof -
  have "recommendClusterSetup cb req c =
     c\<lparr>aborted := True, status := Some StatusBadRequest,
       payload := Some (JsonH [''code'' \<mapsto> HString ''bad_params'',
                               ''message'' \<mapsto> HString ''validation failed'',
                               ''cause'' \<mapsto> HString err]),
       errors := errors c @ [err]\<rparr>"
    using assms by (rule handler_bind_failure)
  then show ?thesis
    by (simp add: StatusBadRequest_def)
qed

theorem bind_failure_is_bad_request_witness:
  "Bind sampleCollaborators (reqBody (sampleRequest (Malformed ''unexpected EOF'')))
     (pathWrapper sampleCollaborators (sampleRequest (Malformed ''unexpected EOF'')))
     = Inl ''unexpected EOF''
   \<and> status (recommendClusterSetup sampleCollaborators
        (sampleRequest (Malformed ''unexpected EOF'')) newContext) = Some 400
   \<and> payload (recommendClusterSetup sampleCollaborators
        (sampleRequest (Malformed ''unexpected EOF'')) newContext)
       = Some (JsonH [''code'' \<mapsto> HString ''bad_params'',
                      ''message'' \<mapsto> HString ''validation failed'',
                      ''cause'' \<mapsto> HString ''unexpected EOF''])
   \<and> engineCalls (recommendClusterSetup sampleCollaborators
        (sampleRequest (Malformed ''unexpected EOF'')) newContext) = []"
proof -
  let ?req = "sampleRequest (Malformed ''unexpected EOF'')"
  have b: "Bind sampleCollaborators (reqBody ?req) (pathWrapper sampleCollaborators ?req)
      = Inl ''unexpected EOF''"
    by (simp add: sample_defs)
  show ?thesis
    using bind_failure_is_bad_request [OF b, of newContext] b
    by (simp add: newContext_def)
qed

text \<open>
  C4. A request whose body binds and for which the engine returns a result and no
  error. In whatever context the handler is entered, it answers 200 with the engine's
  result as it is, after one call of the engine with the embedded request of the bound
  wrapper; it neither aborts nor panics.
\<close>

theorem engine_result_is_response:
  assumes "Bind cb (reqBody req) (pathWrapper cb req) = Inr bound"
    and "RecommendCluster cb (Param req providerParam) (Param req regionParam)
           (ClusterRecommendationReq bound) = (Some response, None)"
  shows "status (recommendClusterSetup cb req c) = Some StatusOK
     \<and> StatusOK = 200
     \<and> payload (recommendClusterSetup cb req c) = Some (JsonValue response)
     \<and> engineCalls (recommendClusterSetup cb req c) = engineCalls c
         @ [(Param req providerParam, Param req regionParam, ClusterRecommendationReq bound)]
     \<and> aborted (recommendClusterSetup cb req c) = aborted c
     \<and> panicked (recommendClusterSetup cb req c) = panicked c"
proof -
  have "recommendClusterSetup cb req c =
     c\<lparr>engineCalls := engineCalls c
          @ [(Param req providerParam, Param req regionParam, ClusterRecommendationReq bound)],
       status := Some StatusOK, payload := Some (JsonValue response)\<rparr>"
    using assms by (rule handler_engine_result)
  then show ?thesis
    by (simp add: StatusOK_def)
qed

theorem engine_result_is_response_witness:
  "Bind sampleCollaborators
      (reqBody (sampleRequest (Document (JObject [(''sumCpu'', JNumber ''4'')]))))
      (pathWrapper sampleCollaborators
        (sampleRequest (Document (JObject [(''sumCpu'', JNumber ''4'')]))))
     = Inr \<lparr>ClusterRecommendationReq = [(''sumCpu'', ''4'')],
             Provider = ''amazon'', Region = ''eu-west-1''\<rparr>
   \<and> status (recommendClusterSetup sampleCollaborators
        (sampleRequest (Document (JObject [(''sumCpu'', JNumber ''4'')]))) newContext)
       = Some 200
   \<and> payload (recommendClusterSetup sampleCollaborators
        (sampleRequest (Document (JObject [(''sumCpu'', JNumber ''4'')]))) newContext)
       = Some (JsonValue ''layout for amazon in eu-west-1'')"
proof -
  let ?req = "sampleRequest (Document (JObject [(''sumCpu'', JNumber ''4'')]))"
  have b: "Bind sampleCollaborators (reqBody ?req) (pathWrapper sampleCollaborators ?req)
      = Inr \<lparr>ClusterRecommendationReq = [(''sumCpu'', ''4'')],
             Provider = ''amazon'', Region = ''eu-west-1''\<rparr>"
    by (simp add: sample_defs)
  have e: "RecommendCluster sampleCollaborators (Param ?req providerParam)
       (Param ?req regionParam)
       (ClusterRecommendationReq \<lparr>ClusterRecommendationReq = [(''sumCpu'', ''4'')],
             Provider = ''amazon'', Region = ''eu-west-1''\<rparr>)
      = (Some ''layout for amazon in eu-west-1'', None)"
    by (simp add: sample_defs)
  show ?thesis
    using engine_result_is_response [OF b e, of newContext] b
    by simp
qed

text \<open>
  C5. A request whose body binds and for which the engine returns an error, whatever
  the error and whatever response pointer comes with it. In whatever context the handler
  is entered, it answers 500 with a body holding the numeric status 500 and, as message,
  the text of the engine's error, after exactly one call of the engine: there is no
  retry.
\<close>

theorem engine_error_is_internal_error:
  assumes "Bind cb (reqBody req) (pathWrapper cb req) = Inr bound"
    and "RecommendCluster cb (Param req providerParam) (Param req regionParam)
           (ClusterRecommendationReq bound) = (response, Some err)"
  shows "status (recommendClusterSetup cb req c) = Some StatusInternalServerError
     \<and> StatusInternalServerError = 500
     \<and> payload (recommendClusterSetup cb req c) =
         Some (JsonH [''status'' \<mapsto> HInt 500, ''message'' \<mapsto> HString err])
     \<and> engineCalls (recommendClusterSetup cb req c) = engineCalls c
         @ [(Param req providerParam, Param req regionParam, ClusterRecommendationReq bound)]"
proof -
  have "recommendClusterSetup cb req c =
     c\<lparr>engineCalls := engineCalls c
          @ [(Param req providerParam, Param req regionParam, ClusterRecommendationReq bound)],
       status := Some StatusInternalServerError,
       payload := Some (JsonH [''status'' \<mapsto> HInt 500, ''message'' \<mapsto> HString err])\<rparr>"
    using assms by (rule handler_engine_error)
  then show ?thesis
    by (simp add: StatusInternalServerError_def)
qed

theorem engine_error_is_internal_error_witness:
  "Bind sampleCollaborators
      (reqBody ((sampleRequest (Document (JObject [(''sumCpu'', JNumber ''4'')])))
        \<lparr>reqParams := [(''provider'', ''amazon''), (''region'', ''nowhere'')]\<rparr>))
      (pathWrapper sampleCollaborators
        ((sampleRequest (Document (JObject [(''sumCpu'', JNumber ''4'')])))
          \<lparr>reqParams := [(''provider'', ''amazon''), (''region'', ''nowhere'')]\<rparr>))
     = Inr \<lparr>ClusterRecommendationReq = [(''sumCpu'', ''4'')],
             Provider = ''amazon'', Region = ''nowhere''\<rparr>
   \<and> status (recommendClusterSetup sampleCollaborators
        ((sampleRequest (Document (JObject [(''sumCpu'', JNumber ''4'')])))
           \<lparr>reqParams := [(''provider'', ''amazon''), (''region'', ''nowhere'')]\<rparr>)
        newContext) = Some 500
   \<and> payload (recommendClusterSetup sampleCollaborators
        ((sampleRequest (Document (JObject [(''sumCpu'', JNumber ''4'')])))
           \<lparr>reqParams := [(''provider'', ''amazon''), (''region'', ''nowhere'')]\<rparr>)
        newContext)
       = Some (JsonH [''status'' \<mapsto> HInt 500,
                      ''message'' \<mapsto> HString ''no feasible layout''])
   \<and> length (engineCalls (recommendClusterSetup sampleCollaborators
        ((sampleRequest (Document (JObject [(''sumCpu'', JNumber ''4'')])))
           \<lparr>reqParams := [(''provider'', ''amazon''), (''region'', ''nowhere'')]\<rparr>)
        newContext)) = 1"
proof -
  let ?req = "(sampleRequest (Document (JObject [(''sumCpu'', JNumber ''4'')])))
        \<lparr>reqParams := [(''provider'', ''amazon''), (''region'', ''nowhere'')]\<rparr>"
  have b: "Bind sampleCollaborators (reqBody ?req) (pathWrapper sampleCollaborators ?req)
      = Inr \<lparr>ClusterRecommendationReq = [(''sumCpu'', ''4'')],
             Provider = ''amazon'', Region = ''nowhere''\<rparr>"
    by (simp add: sample_defs)
  have e: "RecommendCluster sampleCollaborators (Param ?req providerParam)
       (Param ?req regionParam)
       (ClusterRecommendationReq \<lparr>ClusterRecommendationReq = [(''sumCpu'', ''4'')],
             Provider = ''amazon'', Region = ''nowhere''\<rparr>)
      = (None, Some ''no feasible layout'')"
    by (simp add: sample_defs)
  show ?thesis
    using engine_error_is_internal_error [OF b e, of newContext] b
    by (simp add: newContext_def)
qed

text \<open>
  C10. A request whose body binds. In whatever context the handler is entered, its
  one call of the engine is \<^verbatim>\<open>RecommendCluster\<close> applied to the provider and the region
  read from the path parameters of the request, never to the \<^verbatim>\<open>Provider\<close> and
  \<^verbatim>\<open>Region\<close> of the bound wrapper, and the response the handler writes is the one this
  application decides: 500 with the text of its error, or 200 with its result. Whatever
  other body the same request carries, if it binds, the engine is applied to the same
  provider and region. The evaluation below binds a body that names another provider
  and region: the wrapper holds the body's values, and the engine is asked, and answers,
  for the path's.
\<close>

theorem engine_called_with_path_parameters:
  assumes "Bind cb (reqBody req) (pathWrapper cb req) = Inr bound"
  shows "engineCalls (recommendClusterSetup cb req c) = engineCalls c
         @ [(Param req providerParam, Param req regionParam, ClusterRecommendationReq bound)]
     \<and> (\<forall>b' bound'. Bind cb b' (pathWrapper cb req) = Inr bound' \<longrightarrow>
          engineCalls (recommendClusterSetup cb (req\<lparr>reqBody := b'\<rparr>) c) = engineCalls c
            @ [(Param req providerParam, Param req regionParam,
                ClusterRecommendationReq bound')])
     \<and> recommendClusterSetup cb req c =
         (case RecommendCluster cb (Param req providerParam) (Param req regionParam)
                 (ClusterRecommendationReq bound) of
            (_, Some err) \<Rightarrow>
              c\<lparr>engineCalls := engineCalls c
                   @ [(Param req providerParam, Param req regionParam,
                       ClusterRecommendationReq bound)],
                status := Some StatusInternalServerError,
                payload := Some (JsonH [''status'' \<mapsto> HInt 500,
                                        ''message'' \<mapsto> HString err])\<rparr>
          | (Some response, None) \<Rightarrow>
              c\<lparr>engineCalls := engineCalls c
                   @ [(Param req providerParam, Param req regionParam,
                       ClusterRecommendationReq bound)],
                status := Some StatusOK,
                payload := Some (JsonValue response)\<rparr>
          | (None, None) \<Rightarrow>
              c\<lparr>engineCalls := engineCalls c
                   @ [(Param req providerParam, Param req regionParam,
                       ClusterRecommendationReq bound)],
                panicked := True\<rparr>)
     \<and> (\<forall>b' bound'. Bind cb b' (pathWrapper cb req) = Inr bound' \<longrightarrow>
          recommendClusterSetup cb (req\<lparr>reqBody := b'\<rparr>) c =
            (case RecommendCluster cb (Param req providerParam) (Param req regionParam)
                    (ClusterRecommendationReq bound') of
               (_, Some err) \<Rightarrow>
                 c\<lparr>engineCalls := engineCalls c
                      @ [(Param req providerParam, Param req regionParam,
                          ClusterRecommendationReq bound')],
                   status := Some StatusInternalServerError,
                   payload := Some (JsonH [''status'' \<mapsto> HInt 500,
                                           ''message'' \<mapsto> HString err])\<rparr>
             | (Some response, None) \<Rightarrow>
                 c\<lparr>engineCalls := engineCalls c
                      @ [(Param req providerParam, Param req regionParam,
                          ClusterRecommendationReq bound')],
                   status := Some StatusOK,
                   payload := Some (JsonValue response)\<rparr>
             | (None, None) \<Rightarrow>
                 c\<lparr>engineCalls := engineCalls c
                      @ [(Param req providerParam, Param req regionParam,
                          ClusterRecommendationReq bound')],
                   panicked := True\<rparr>))"
proof -
  have calls: "engineCalls (recommendClusterSetup cb (req\<lparr>reqBody := b'\<rparr>) c) = engineCalls c
            @ [(Param req providerParam, Param req regionParam,
                ClusterRecommendationReq bound')]"
    if "Bind cb b' (pathWrapper cb req) = Inr bound'" for b' bound'
    using that handler_engine_called [of cb "req\<lparr>reqBody := b'\<rparr>" bound' c]
    by (simp add: Param_def)
  have answer: "recommendClusterSetup cb r c =
         (case RecommendCluster cb (Param r providerParam) (Param r regionParam)
                 (ClusterRecommendationReq w) of
            (_, Some err) \<Rightarrow>
              c\<lparr>engineCalls := engineCalls c
                   @ [(Param r providerParam, Param r regionParam,
                       ClusterRecommendationReq w)],
                status := Some StatusInternalServerError,
                payload := Some (JsonH [''status'' \<mapsto> HInt 500,
                                        ''message'' \<mapsto> HString err])\<rparr>
          | (Some response, None) \<Rightarrow>
              c\<lparr>engineCalls := engineCalls c
                   @ [(Param r providerParam, Param r regionParam,
                       ClusterRecommendationReq w)],
                status := Some StatusOK,
                payload := Some (JsonValue response)\<rparr>
          | (None, None) \<Rightarrow>
              c\<lparr>engineCalls := engineCalls c
                   @ [(Param r providerParam, Param r regionParam,
                       ClusterRecommendationReq w)],
                panicked := True\<rparr>)"
    if "Bind cb (reqBody r) (pathWrapper cb r) = Inr w" for r w
    using that
    by (simp add: recommendClusterSetup_def BindJSON_def context_ops Let_def
        StatusInternalServerError_def split: prod.splits option.splits)
  have other: "recommendClusterSetup cb (req\<lparr>reqBody := b'\<rparr>) c =
            (case RecommendCluster cb (Param req providerParam) (Param req regionParam)
                    (ClusterRecommendationReq bound') of
               (_, Some err) \<Rightarrow>
                 c\<lparr>engineCalls := engineCalls c
                      @ [(Param req providerParam, Param req regionParam,
                          ClusterRecommendationReq bound')],
                   status := Some StatusInternalServerError,
                   payload := Some (JsonH [''status'' \<mapsto> HInt 500,
                                           ''message'' \<mapsto> HString err])\<rparr>
             | (Some response, None) \<Rightarrow>
                 c\<lparr>engineCalls := engineCalls c
                      @ [(Param req providerParam, Param req regionParam,
                          ClusterRecommendationReq bound')],
                   status := Some StatusOK,
                   payload := Some (JsonValue response)\<rparr>
             | (None, None) \<Rightarrow>
                 c\<lparr>engineCalls := engineCalls c
                      @ [(Param req providerParam, Param req regionParam,
                          ClusterRecommendationReq bound')],
                   panicked := True\<rparr>)"
    if "Bind cb b' (pathWrapper cb req) = Inr bound'" for b' bound'
  proof -
    have same: "Param (req\<lparr>reqBody := b'\<rparr>) key = Param req key" for key
      by (simp add: Param_def)
    show ?thesis
      using that answer [of "req\<lparr>reqBody := b'\<rparr>" bound']
      by (simp add: same cong: prod.case_cong option.case_cong)
  qed
  show ?thesis
    using handler_engine_called [OF assms, of c] calls answer [OF assms] other
    by blast
qed

theorem engine_called_with_path_parameters_witness:
  "Bind sampleCollaborators (reqBody (sampleRequest conflictingBody))
      (pathWrapper sampleCollaborators (sampleRequest conflictingBody))
     = Inr \<lparr>ClusterRecommendationReq = [(''sumCpu'', ''4'')],
             Provider = ''google'', Region = ''europe-west1''\<rparr>
   \<and> engineCalls (recommendClusterSetup sampleCollaborators (sampleRequest conflictingBody)
        newContext)
       = [(''amazon'', ''eu-west-1'', [(''sumCpu'', ''4'')])]
   \<and> status (recommendClusterSetup sampleCollaborators (sampleRequest conflictingBody)
        newContext) = Some 200
   \<and> payload (recommendClusterSetup sampleCollaborators (sampleRequest conflictingBody)
        newContext) = Some (JsonValue ''layout for amazon in eu-west-1'')"
proof -
  let ?req = "sampleRequest conflictingBody"
  have b: "Bind sampleCollaborators (reqBody ?req) (pathWrapper sampleCollaborators ?req)
      = Inr \<lparr>ClusterRecommendationReq = [(''sumCpu'', ''4'')],
             Provider = ''google'', Region = ''europe-west1''\<rparr>"
    by (simp add: sample_defs)
  have p: "Param ?req providerParam = ''amazon''" "Param ?req regionParam = ''eu-west-1''"
    by (simp_all add: sample_defs)
  have e: "RecommendCluster sampleCollaborators ''amazon'' ''eu-west-1'' [(''sumCpu'', ''4'')]
      = (Some ''layout for amazon in eu-west-1'', None)"
    by (simp add: sampleCollaborators_def)
  show ?thesis
    using engine_called_with_path_parameters [OF b, of newContext] b p e
    by (simp add: newContext_def StatusOK_def)
qed

subsection \<open>The handler behind the guards\<close>

text \<open>
  The same outcomes for a request to the recommend route served by the configured
  engine, with the guards in front of the handler as the spec describes them. A request
  that does not pass them never enters the handler and never reaches the engine.
\<close>

lemma served_bind_failure:
  assumes "reqMethod req = MethodPost" and "reqRoute req = recommendRoute env"
    and "Bind cb (reqBody req) (pathWrapper cb req) = Inl err"
  shows "\<exists>s. ServeHTTP cb (startup dflt env auth) req = Some s
     \<and> engineCalls s = []
     \<and> (if passesGuards cb auth req
        then status s = Some StatusBadRequest
          \<and> payload s = Some (JsonH [''code'' \<mapsto> HString ''bad_params'',
                                     ''message'' \<mapsto> HString ''validation failed'',
                                     ''cause'' \<mapsto> HString err])
          \<and> aborted s
        else RecommendClusterSetup \<notin> set (trace s))"
proof (cases "passesGuards cb auth req")
  case True
  then show ?thesis
    using assms by (simp add: serve_recommend_passed handler_bind_failure newContext_def)
next
  case False
  then show ?thesis
    using serve_recommend_stopped [OF assms(1,2) False, of dflt] by auto
qed

lemma served_engine_result:
  assumes "reqMethod req = MethodPost" and "reqRoute req = recommendRoute env"
    and "passesGuards cb auth req"
    and "Bind cb (reqBody req) (pathWrapper cb req) = Inr bound"
    and "RecommendCluster cb (Param req providerParam) (Param req regionParam)
           (ClusterRecommendationReq bound) = (Some response, None)"
  shows "\<exists>s. ServeHTTP cb (startup dflt env auth) req = Some s
     \<and> status s = Some StatusOK
     \<and> payload s = Some (JsonValue response)
     \<and> engineCalls s =
         [(Param req providerParam, Param req regionParam, ClusterRecommendationReq bound)]
     \<and> \<not> aborted s \<and> \<not> panicked s"
  using assms
  by (simp add: serve_recommend_passed handler_engine_result newContext_def)

lemma served_engine_error:
  assumes "reqMethod req = MethodPost" and "reqRoute req = recommendRoute env"
    and "passesGuards cb auth req"
    and "Bind cb (reqBody req) (pathWrapper cb req) = Inr bound"
    and "RecommendCluster cb (Param req providerParam) (Param req regionParam)
           (ClusterRecommendationReq bound) = (response, Some err)"
  shows "\<exists>s. ServeHTTP cb (startup dflt env auth) req = Some s
     \<and> status s = Some StatusInternalServerError
     \<and> payload s = Some (JsonH [''status'' \<mapsto> HInt 500, ''message'' \<mapsto> HString err])
     \<and> engineCalls s =
         [(Param req providerParam, Param req regionParam, ClusterRecommendationReq bound)]"
  using assms
  by (simp add: serve_recommend_passed handler_engine_error newContext_def)

lemma served_sample_request:
  "map_option (\<lambda>s. (status s, payload s, engineCalls s, trace s))
     (ServeHTTP sampleCollaborators (startup DefaultConfig Map.empty None)
        (sampleRequest conflictingBody))
   = Some (Some 200, Some (JsonValue ''layout for amazon in eu-west-1''),
       [(''amazon'', ''eu-west-1'', [(''sumCpu'', ''4'')])],
       [CorsMiddleware (getCorsConfig DefaultConfig),
        ValidatePathParam ''provider'' ''provider'', ValidateRegionData,
        RecommendClusterSetup])"
proof -
  let ?req = "sampleRequest conflictingBody"
  have m: "reqMethod ?req = MethodPost" and r: "reqRoute ?req = recommendRoute Map.empty"
    by (simp_all add: sample_defs)
  have g: "passesGuards sampleCollaborators None ?req"
    by (simp add: sample_defs)
  have b: "Bind sampleCollaborators (reqBody ?req) (pathWrapper sampleCollaborators ?req)
      = Inr \<lparr>ClusterRecommendationReq = [(''sumCpu'', ''4'')],
             Provider = ''google'', Region = ''europe-west1''\<rparr>"
    by (simp add: sample_defs)
  have e: "RecommendCluster sampleCollaborators (Param ?req providerParam)
       (Param ?req regionParam)
       (ClusterRecommendationReq \<lparr>ClusterRecommendationReq = [(''sumCpu'', ''4'')],
             Provider = ''google'', Region = ''europe-west1''\<rparr>)
      = (Some ''layout for amazon in eu-west-1'', None)"
    by (simp add: sample_defs)
  have p: "Param ?req providerParam = ''amazon''" "Param ?req regionParam = ''eu-west-1''"
    by (simp_all add: sample_defs)
  have "ServeHTTP sampleCollaborators (startup DefaultConfig Map.empty None) ?req =
     Some (recommendClusterSetup sampleCollaborators ?req
       (newContext\<lparr>
          policy := (if reqOrigin ?req = [] then None else Some (getCorsConfig DefaultConfig)),
          identity := (case None :: (string \<times> string) option of
             None \<Rightarrow> None | Some _ \<Rightarrow> reqToken ?req),
          trace := authStages None @ [CorsMiddleware (getCorsConfig DefaultConfig),
            ValidatePathParam providerParam ''provider'', ValidateRegionData,
            RecommendClusterSetup]\<rparr>))"
    using m r g by (rule serve_recommend_passed)
  then show ?thesis
    using p
    by (simp add: handler_engine_result [OF b e] newContext_def authStages_def StatusOK_def
        providerParam_def)
qed

subsection \<open>The order of the guards\<close>

text \<open>
  C7. With the authentication enabled at startup, a request to the business route that
  carries no credential is answered with 401 by the authentication stage, which is the
  only stage entered: no path-parameter, region or body validation runs and the engine
  is not called.
\<close>

theorem missing_credential_is_refused_first:
  assumes "reqMethod req = MethodPost" and "reqRoute req = recommendRoute env"
    and "reqToken req = None"
  shows "\<exists>c. ServeHTTP cb (startup dflt env (Some (role, sgnKey))) req = Some c
     \<and> status c = Some StatusUnauthorized
     \<and> payload c = Some (Unauthorized NoCredential)
     \<and> aborted c
     \<and> trace c = [JWTAuth role sgnKey]
     \<and> engineCalls c = []"
  using assms
  by (simp add: ServeHTTP_def handlersFor_recommend authStages_def newContext_def
      runStage_def jwtAuth_def context_ops)

theorem missing_credential_is_refused_first_witness:
  "reqToken (sampleRequest conflictingBody) = None
   \<and> map_option status (ServeHTTP sampleCollaborators
        (startup DefaultConfig Map.empty (Some (''telescopes'', ''key'')))
        (sampleRequest conflictingBody)) = Some (Some 401)
   \<and> map_option trace (ServeHTTP sampleCollaborators
        (startup DefaultConfig Map.empty (Some (''telescopes'', ''key'')))
        (sampleRequest conflictingBody)) = Some [JWTAuth ''telescopes'' ''key'']"
proof -
  let ?req = "sampleRequest conflictingBody"
  have m: "reqMethod ?req = MethodPost" and r: "reqRoute ?req = recommendRoute Map.empty"
    and t: "reqToken ?req = None"
    by (simp_all add: sample_defs)
  show ?thesis
    using missing_credential_is_refused_first [OF m r t, of sampleCollaborators DefaultConfig
        "''telescopes''" "''key''"] t
    by (auto simp add: StatusUnauthorized_def)
qed

text \<open>
  C6. The chain registered for the business route is the authentication (if enabled at
  startup), the cross-origin middleware, the provider validator, the region validator
  and the handler, in this order, and the stages a request enters are always an initial
  segment of it. For a request whose provider parameter fails the validation, the region
  validator and the handler (with it the binding of the body and the engine) are never
  entered, and the request is aborted.
\<close>

theorem validators_run_in_fixed_order:
  assumes "reqMethod req = MethodPost" and "reqRoute req = recommendRoute env"
  shows "handlersFor (startup dflt env auth) MethodPost (recommendRoute env) =
       Some (authStages auth @ [CorsMiddleware (getCorsConfig dflt),
         ValidatePathParam providerParam ''provider'', ValidateRegionData,
         RecommendClusterSetup])
     \<and> (\<exists>c. ServeHTTP cb (startup dflt env auth) req = Some c
          \<and> prefix (trace c) (authStages auth @ [CorsMiddleware (getCorsConfig dflt),
               ValidatePathParam providerParam ''provider'', ValidateRegionData,
               RecommendClusterSetup])
          \<and> (validVar cb (Param req providerParam) ''provider'' \<noteq> None \<longrightarrow>
                 ValidateRegionData \<notin> set (trace c)
               \<and> RecommendClusterSetup \<notin> set (trace c)
               \<and> engineCalls c = []
               \<and> aborted c))"
proof -
  let ?chain = "authStages auth @ [CorsMiddleware (getCorsConfig dflt),
         ValidatePathParam providerParam ''provider'', ValidateRegionData,
         RecommendClusterSetup]"
  define c :: "('a, 'b) Context" where "c = Next cb ?chain req newContext"
  have h: "handlersFor (startup dflt env auth) MethodPost (recommendRoute env) = Some ?chain"
    by (rule handlersFor_recommend)
  have s: "ServeHTTP cb (startup dflt env auth) req = Some c"
    using assms by (simp add: ServeHTTP_def h c_def)
  have "prefix (trace c) (trace (newContext :: ('a, 'b) Context) @ ?chain)"
    unfolding c_def by (rule trace_Next)
  then have p: "prefix (trace c) ?chain"
    by simp
  have q: "ValidateRegionData \<notin> set (trace c) \<and> RecommendClusterSetup \<notin> set (trace c)
        \<and> engineCalls c = [] \<and> aborted c"
    if v: "validVar cb (Param req providerParam) ''provider'' \<noteq> None"
  proof -
    from v obtain cause where v': "validVar cb (Param req providerParam) ''provider'' = Some cause"
      by blast
    then have ng: "\<not> passesGuards cb auth req"
      by (simp add: passesGuards_def)
    obtain c' where c': "ServeHTTP cb (startup dflt env auth) req = Some c'"
      "aborted c'" "RecommendClusterSetup \<notin> set (trace c')" "engineCalls c' = []"
      using serve_recommend_stopped [OF assms ng, of dflt] by blast
    have eq: "c' = c" using c'(1) s by simp
    have "c = Next cb [RecommendClusterSetup] req
       (Next cb (authStages auth @ [CorsMiddleware (getCorsConfig dflt),
            ValidatePathParam providerParam ''provider'', ValidateRegionData]) req newContext)"
      using s serve_recommend [OF assms, of cb dflt auth] by simp
    moreover have "aborted (Next cb (authStages auth @ [CorsMiddleware (getCorsConfig dflt),
            ValidatePathParam providerParam ''provider'', ValidateRegionData]) req
            (newContext :: ('a, 'b) Context))"
      using ng by (rule guards_stop)
    ultimately have "trace c = trace (Next cb (authStages auth @ [CorsMiddleware (getCorsConfig dflt),
            ValidatePathParam providerParam ''provider'', ValidateRegionData]) req
            (newContext :: ('a, 'b) Context))"
      by (simp add: Next_stopped)
    then have "trace c = (if authorized cb auth req
          then authStages auth @ [CorsMiddleware (getCorsConfig dflt),
                 ValidatePathParam providerParam ''provider'']
          else authStages auth)"
      by (simp only: guards_provider_refused [OF v'])
    then have "ValidateRegionData \<notin> set (trace c)"
      by (simp add: authStages_def split: option.splits)
    then show ?thesis using c'(2-4) eq by simp
  qed
  show ?thesis
    using h s p q by blast
qed

theorem validators_run_in_fixed_order_witness:
  "validVar sampleCollaborators
      (Param ((sampleRequest conflictingBody)
         \<lparr>reqParams := [(''provider'', ''oracle''), (''region'', ''eu-west-1'')]\<rparr>) providerParam)
      ''provider'' \<noteq> None
   \<and> map_option (\<lambda>c. ValidateRegionData \<in> set (trace c))
        (ServeHTTP sampleCollaborators (startup DefaultConfig Map.empty None)
          ((sampleRequest conflictingBody)
            \<lparr>reqParams := [(''provider'', ''oracle''), (''region'', ''eu-west-1'')]\<rparr>))
       = Some False
   \<and> map_option engineCalls
        (ServeHTTP sampleCollaborators (startup DefaultConfig Map.empty None)
          ((sampleRequest conflictingBody)
            \<lparr>reqParams := [(''provider'', ''oracle''), (''region'', ''eu-west-1'')]\<rparr>))
       = Some []"
proof -
  let ?req = "(sampleRequest conflictingBody)
            \<lparr>reqParams := [(''provider'', ''oracle''), (''region'', ''eu-west-1'')]\<rparr>"
  have m: "reqMethod ?req = MethodPost" and r: "reqRoute ?req = recommendRoute Map.empty"
    by (simp_all add: sample_defs)
  have v: "validVar sampleCollaborators (Param ?req providerParam) ''provider'' \<noteq> None"
    by (simp add: sample_defs)
  show ?thesis
    using validators_run_in_fixed_order [OF m r, of DefaultConfig None sampleCollaborators] v
    by auto
qed

subsection \<open>The liveness route\<close>

text \<open>
  C2, as stated, does not hold. \<^verbatim>\<open>EnableAuth\<close> installs the authentication on the
  engine itself, so every chain registered afterwards starts with it, the chain of the
  status route included: with the authentication enabled and no credential, the status
  request is answered with 401 and not with \<^verbatim>\<open>"ok"\<close>.
\<close>

theorem status_route_behind_authentication:
  "map_option status (ServeHTTP sampleCollaborators
       (startup DefaultConfig Map.empty (Some (''telescopes'', ''key''))) sampleStatusRequest)
     = Some (Some 401)
   \<and> map_option payload (ServeHTTP sampleCollaborators
       (startup DefaultConfig Map.empty (Some (''telescopes'', ''key''))) sampleStatusRequest)
     \<noteq> Some (Some (JsonString ''ok''))"
proof -
  have m: "reqMethod sampleStatusRequest = MethodGet"
    and r: "reqRoute sampleStatusRequest = statusRoute Map.empty"
    and t: "reqToken sampleStatusRequest = None"
    by (simp_all add: sample_defs)
  have "ServeHTTP sampleCollaborators
       (startup DefaultConfig Map.empty (Some (''telescopes'', ''key''))) sampleStatusRequest
     = Some (Next sampleCollaborators
         (authStages (Some (''telescopes'', ''key''))
            @ [CorsMiddleware (getCorsConfig DefaultConfig), SignalStatus])
         sampleStatusRequest newContext)"
    by (simp add: ServeHTTP_def m r handlersFor_status)
  then show ?thesis
    using t
    by (simp add: authStages_def newContext_def runStage_def jwtAuth_def context_ops
        StatusUnauthorized_def)
qed

text \<open>
  C2, amended. A request to the status route is answered with 200 and the body
  \<^verbatim>\<open>"ok"\<close>, whatever its path parameters, origin and body, when the authentication is
  not enabled or accepts the credential of the request; otherwise the authentication
  answers 401 and the status handler is not entered. No business validator and no
  handler of the business route is ever entered, and the engine is never called.
\<close>

theorem status_route_answers_ok:
  assumes "reqMethod req = MethodGet" and "reqRoute req = statusRoute env"
  shows "\<exists>c. ServeHTTP cb (startup dflt env auth) req = Some c
     \<and> (if authorized cb auth req
        then status c = Some StatusOK \<and> payload c = Some (JsonString ''ok'')
        else status c = Some StatusUnauthorized \<and> SignalStatus \<notin> set (trace c))
     \<and> ValidatePathParam providerParam ''provider'' \<notin> set (trace c)
     \<and> ValidateRegionData \<notin> set (trace c)
     \<and> RecommendClusterSetup \<notin> set (trace c)
     \<and> engineCalls c = []"
  using assms
  by (cases auth; cases "reqToken req")
     (simp_all add: ServeHTTP_def handlersFor_status authStages_def authorized_def
        newContext_def stage_defs context_ops split: option.splits prod.splits)

theorem status_route_answers_ok_witness:
  "authorized sampleCollaborators None sampleStatusRequest
   \<and> map_option status (ServeHTTP sampleCollaborators (startup DefaultConfig Map.empty None)
        sampleStatusRequest) = Some (Some 200)
   \<and> map_option payload (ServeHTTP sampleCollaborators (startup DefaultConfig Map.empty None)
        sampleStatusRequest) = Some (Some (JsonString ''ok''))"
proof -
  have m: "reqMethod sampleStatusRequest = MethodGet"
    and r: "reqRoute sampleStatusRequest = statusRoute Map.empty"
    by (simp_all add: sample_defs)
  have a: "authorized sampleCollaborators None sampleStatusRequest"
    by (simp add: authorized_def)
  show ?thesis
    using status_route_answers_ok [OF m r, of sampleCollaborators DefaultConfig None] a
    by (auto simp add: StatusOK_def)
qed

text \<open>
  \<^verbatim>\<open>EnableAuth\<close> on an engine whose routes are registered already changes no chain,
  since gin fixes the chain of a route when the route is registered. The authentication
  therefore guards the business route only when it is installed before
  \<^verbatim>\<open>ConfigureRoutes\<close>, and then it heads the chain of the status route as well.
\<close>

lemma EnableAuth_after_ConfigureRoutes:
  "trees (EnableAuth (ConfigureRoutes dflt env router) role sgnKey)
     = trees (ConfigureRoutes dflt env router)"
  by (simp add: EnableAuth_def Use_def)

lemma EnableAuth_before_ConfigureRoutes:
  "map (\<lambda>t. snd (snd t)) (trees (ConfigureRoutes dflt env (EnableAuth New role sgnKey))) =
     [[JWTAuth role sgnKey, CorsMiddleware (getCorsConfig dflt), SignalStatus],
      [JWTAuth role sgnKey, CorsMiddleware (getCorsConfig dflt),
       ValidatePathParam providerParam ''provider'', ValidateRegionData,
       RecommendClusterSetup]]"
  by (simp add: trees_ConfigureRoutes EnableAuth_def Use_def New_def)

subsection \<open>Configuration\<close>

text \<open>
  C8. The base path is the value of \<^verbatim>\<open>TELESCOPES_BASEPATH\<close> when the variable is set to
  a non-empty string and \<^verbatim>\<open>/\<close> otherwise. It is read when the routes are configured:
  the two routes that \<^verbatim>\<open>ConfigureRoutes\<close> adds to a router are registered below the
  router's own path and this base path, and serving a request consults the registered
  routes only.
\<close>

theorem base_path_from_environment:
  "basePath env = (case env ''TELESCOPES_BASEPATH'' of
       None \<Rightarrow> ''/''
     | Some override \<Rightarrow> if override = [] then ''/'' else override)
   \<and> map (\<lambda>t. fst (snd t))
        (drop (length (trees router)) (trees (ConfigureRoutes dflt env router))) =
       [groupPath router @ [basePath env, ''/status''],
        groupPath router @ [basePath env, ''/api/v1'', ''/recommender'',
                            ''/:provider/:region/cluster/'']]"
  by (simp add: basePath_def Getenv_def trees_ConfigureRoutes Let_def split: option.splits)

text \<open>
  C9. The cross-origin configuration, whatever the library's default is: all origins
  allowed; the methods PUT, DELETE, GET, POST, OPTIONS and no other; the headers
  Origin, Authorization, Content-Type; the exposed header Content-Length; credentials
  allowed; a maximal age of 12. The middleware built from it stands in the chain of
  both routes that \<^verbatim>\<open>ConfigureRoutes\<close> adds to a router.
\<close>

theorem cors_policy_is_fixed:
  "AllowAllOrigins (getCorsConfig dflt)
   \<and> AllowMethods (getCorsConfig dflt) = [''PUT'', ''DELETE'', ''GET'', ''POST'', ''OPTIONS'']
   \<and> set (AllowMethods (getCorsConfig dflt)) = {''GET'', ''POST'', ''PUT'', ''DELETE'', ''OPTIONS''}
   \<and> AllowHeaders (getCorsConfig dflt) = [''Origin'', ''Authorization'', ''Content-Type'']
   \<and> ExposeHeaders (getCorsConfig dflt) = [''Content-Length'']
   \<and> AllowCredentials (getCorsConfig dflt)
   \<and> MaxAge (getCorsConfig dflt) = 12
   \<and> map (\<lambda>t. CorsMiddleware (getCorsConfig dflt) \<in> set (snd (snd t)))
        (drop (length (trees router)) (trees (ConfigureRoutes dflt env router)))
       = [True, True]"
proof -
  have "set (AllowMethods (getCorsConfig dflt)) = {''GET'', ''POST'', ''PUT'', ''DELETE'', ''OPTIONS''}"
    by (auto simp add: getCorsConfig_def Let_def MethodPut_def MethodDelete_def MethodGet_def
      MethodPost_def MethodOptions_def)
  moreover have "map (\<lambda>t. CorsMiddleware (getCorsConfig dflt) \<in> set (snd (snd t)))
        (drop (length (trees router)) (trees (ConfigureRoutes dflt env router)))
       = [True, True]"
    by (simp add: trees_ConfigureRoutes)
  ultimately show ?thesis
    by (simp add: getCorsConfig_def Let_def MethodPut_def MethodDelete_def MethodGet_def
      MethodPost_def MethodOptions_def)
qed

subsection \<open>Binding the body onto the wrapper\<close>

text \<open>
  The decoder stores into \<^verbatim>\<open>Provider\<close> and \<^verbatim>\<open>Region\<close> exactly when a key of the body
  matches one of the two names: a body without such a key leaves the values taken from
  the path, a body with both keys replaces them.
\<close>

lemma equalFold_same: "equalFold s s"
  by (simp add: equalFold_def list_all2_same)

lemma decodeMember_keeps:
  assumes "\<not> equalFold ''Provider'' (fst m)" and "\<not> equalFold ''Region'' (fst m)"
    and "decodeMember cb m w = Inr w'"
  shows "Provider w' = Provider w \<and> Region w' = Region w"
proof -
  have "fst m \<noteq> ''Provider''" and "fst m \<noteq> ''Region''"
    using assms(1,2) equalFold_same by metis+
  then show ?thesis
    using assms
    by (auto simp add: decodeMember_def Let_def split: option.splits sum.splits)
qed

lemma decodeMembers_keeps:
  assumes "\<forall>m \<in> set ms. \<not> equalFold ''Provider'' (fst m) \<and> \<not> equalFold ''Region'' (fst m)"
    and "decodeMembers cb ms w = Inr w'"
  shows "Provider w' = Provider w \<and> Region w' = Region w"
  using assms
proof (induction ms arbitrary: w)
  case Nil
  then show ?case by simp
next
  case (Cons m ms)
  from Cons.prems(2) obtain v where v: "decodeMember cb m w = Inr v"
    and rest: "decodeMembers cb ms v = Inr w'"
    by (auto split: sum.splits)
  have "Provider v = Provider w \<and> Region v = Region w"
    using Cons.prems(1) by (intro decodeMember_keeps [OF _ _ v]) simp_all
  moreover have "Provider w' = Provider v \<and> Region w' = Region v"
    using Cons.IH [OF _ rest] Cons.prems(1) by simp
  ultimately show ?case by simp
qed

lemma Decode_overwrites:
  "Decode cb (Document (JObject [(''Provider'', JString p), (''Region'', JString r)])) w
     = Inr (w\<lparr>Provider := p, Region := r\<rparr>)"
  by (simp add: Decode_def decodeMember_def storeProvider_def storeRegion_def)

text \<open>
  C1. The claim is that the fields \<^verbatim>\<open>Provider\<close> and \<^verbatim>\<open>Region\<close> of the wrapper always
  hold the values of the URL path. Evaluated on a request to
  \<^verbatim>\<open>/api/v1/recommender/amazon/eu-west-1/cluster/\<close> whose body names the provider
  \<^verbatim>\<open>google\<close> and the region \<^verbatim>\<open>europe-west1\<close>: the wrapper is built with the path
  values, and the wrapper that the binding returns (and that the struct validator has
  seen) holds the values of the body.
\<close>

theorem body_overwrites_path_fields:
  "Provider (pathWrapper sampleCollaborators (sampleRequest conflictingBody)) = ''amazon''
   \<and> Region (pathWrapper sampleCollaborators (sampleRequest conflictingBody)) = ''eu-west-1''
   \<and> Bind sampleCollaborators (reqBody (sampleRequest conflictingBody))
        (pathWrapper sampleCollaborators (sampleRequest conflictingBody))
      = Inr \<lparr>ClusterRecommendationReq = [(''sumCpu'', ''4'')],
             Provider = ''google'', Region = ''europe-west1''\<rparr>"
  by (simp add: sample_defs)

end
